theory Spec2Isabelle
  imports Complex_Main
begin

section \<open>Values, exceptions and tables\<close>

text \<open>
  The prediction page (\<^verbatim>\<open>dash_app/pages/prediction.py\<close>) receives the values of its form
  components, derives a one-row table of features and hands it to an estimator that was
  loaded in \<^verbatim>\<open>dash_app/app.py\<close>. The values that the form components supply are JSON
  numbers, the date is a JSON string, and each of them is \<^verbatim>\<open>None\<close> when its component is
  empty.

  A Python \<^verbatim>\<open>float\<close> is a finite value, an infinity or a NaN. A finite value is identified
  with the rational number it denotes.
\<close>

datatype pyfloat = Finite rat | PosInf | NegInf | NaN

datatype pynum = PyInt int | PyFloat pyfloat

text \<open>
  An exception instance: the name of its class (what \<^verbatim>\<open>type(e).__name__\<close> reads) and the
  text it carries. \<open>PyExn\<close> is an instance of a subclass of \<^verbatim>\<open>Exception\<close>; \<open>PyBaseExn\<close> is
  an instance of a class that derives from \<^verbatim>\<open>BaseException\<close> and not from
  \<^verbatim>\<open>Exception\<close>, as \<^verbatim>\<open>KeyboardInterrupt\<close>, \<^verbatim>\<open>SystemExit\<close> and \<^verbatim>\<open>GeneratorExit\<close> are.
\<close>

datatype pyexn =
  is_Exception: PyExn (exc_type_name: string) (exc_text: string)
  | PyBaseExn (exc_type_name: string) (exc_text: string)

text \<open>A timestamp, with the fields of the date and of the time of day.\<close>

record timestamp =
  ts_year :: int
  ts_month :: int
  ts_day :: int
  ts_hour :: int
  ts_minute :: int
  ts_second :: int

text \<open>
  A one-row \<^verbatim>\<open>DataFrame\<close>: the columns in their order, each with the value of the single
  row, and the index label of that row.
\<close>

record dataframe =
  df_columns :: "(string \<times> pynum) list"
  df_index :: timestamp

section \<open>Built-in conversions and formatting\<close>

fun bit_length :: "nat \<Rightarrow> nat" where
  "bit_length n = (if n = 0 then 0 else Suc (bit_length (n div 2)))"

declare bit_length.simps [simp del]

text \<open>
  \<^verbatim>\<open>float(n)\<close> for an integer \<^verbatim>\<open>n\<close>: exact up to 53 bits, otherwise rounded to 53
  significant bits, ties to even; \<^verbatim>\<open>OverflowError\<close> beyond the range of a double.
\<close>

definition int_to_float :: "int \<Rightarrow> pyexn + pyfloat" where
  "int_to_float n =
     (let a = nat \<bar>n\<bar>; l = bit_length a in
      if l \<le> 53 then Inr (Finite (of_int n))
      else
        (let shift = l - 53;
             q = a div 2 ^ shift;
             r = a mod 2 ^ shift;
             half = 2 ^ (shift - 1);
             m = (if half < r \<or> (r = half \<and> odd q) then q + 1 else q);
             v = m * 2 ^ shift
         in if 2 ^ 1024 \<le> v
            then Inl (PyExn ''OverflowError'' ''int too large to convert to float'')
            else Inr (Finite (of_int (sgn n * int v)))))"

fun float_builtin :: "pynum \<Rightarrow> pyexn + pyfloat" where
  "float_builtin (PyInt n) = int_to_float n"
| "float_builtin (PyFloat x) = Inr x"

definition quoted :: "string \<Rightarrow> string" where
  "quoted s = [CHR 0x27] @ s @ [CHR 0x27]"

definition digit_char :: "nat \<Rightarrow> char" where
  "digit_char d = ''0123456789'' ! d"

fun digits10 :: "nat \<Rightarrow> string" where
  "digits10 n = (if n < 10 then [digit_char n] else digits10 (n div 10) @ [digit_char (n mod 10)])"

declare digits10.simps [simp del]

text \<open>
  The format specification \<^verbatim>\<open>02d\<close>: the decimal digits of an integer, padded with zeros
  to two characters, the sign counted in the width. A float has no format code \<^verbatim>\<open>d\<close>.
\<close>

fun format_02d :: "pynum \<Rightarrow> pyexn + string" where
  "format_02d (PyInt n) =
     (if n < 0 then Inr (CHR ''-'' # digits10 (nat (- n)))
      else (let ds = digits10 (nat n) in Inr (if length ds < 2 then CHR ''0'' # ds else ds)))"
| "format_02d (PyFloat x) =
     Inl (PyExn ''ValueError''
       (''Unknown format code '' @ quoted ''d'' @ '' for object of type '' @ quoted ''float''))"

text \<open>The format specification \<^verbatim>\<open>,\<close>: decimal digits in groups of three.\<close>

function comma_groups :: "string \<Rightarrow> string" where
  "comma_groups ds =
     (if length ds \<le> 3 then ds
      else comma_groups (take (length ds - 3) ds) @ '','' @ drop (length ds - 3) ds)"
  by pat_completeness auto
termination
  by (relation "measure length") auto

declare comma_groups.simps [simp del]

definition format_comma :: "int \<Rightarrow> string" where
  "format_comma n =
     (if n < 0 then CHR ''-'' # comma_groups (digits10 (nat (- n)))
      else comma_groups (digits10 (nat n)))"

text \<open>\<^verbatim>\<open>round(x)\<close> with one argument: the nearest integer, a tie going to the even one.\<close>

definition round_half_even :: "rat \<Rightarrow> int" where
  "round_half_even x =
     (let f = \<lfloor>x\<rfloor>; r = x - of_int f in
      if r < 1 / 2 then f
      else if 1 / 2 < r then f + 1
      else if even f then f else f + 1)"

fun int_round :: "pyfloat \<Rightarrow> pyexn + int" where
  "int_round (Finite x) = Inr (round_half_even x)"
| "int_round NaN = Inl (PyExn ''ValueError'' ''cannot convert float NaN to integer'')"
| "int_round PosInf = Inl (PyExn ''OverflowError'' ''cannot convert float infinity to integer'')"
| "int_round NegInf = Inl (PyExn ''OverflowError'' ''cannot convert float infinity to integer'')"

section \<open>Parsing the date\<close>

definition is_leap :: "int \<Rightarrow> bool" where
  "is_leap y = (y mod 4 = 0 \<and> (y mod 100 \<noteq> 0 \<or> y mod 400 = 0))"

definition days_in_month :: "int \<Rightarrow> int \<Rightarrow> int" where
  "days_in_month y m =
     (if m = 2 then (if is_leap y then 29 else 28)
      else if m \<in> set [4, 6, 9, 11] then 30 else 31)"

definition days_from_civil :: "int \<Rightarrow> int \<Rightarrow> int \<Rightarrow> int" where
  "days_from_civil y m d =
     (let y' = (if m \<le> 2 then y - 1 else y);
          era = y' div 400;
          yoe = y' - era * 400;
          doy = (153 * (if 2 < m then m - 3 else m + 9) + 2) div 5 + d - 1;
          doe = yoe * 365 + yoe div 4 - yoe div 100 + doy
      in era * 146097 + doe - 719468)"

text \<open>The property \<^verbatim>\<open>dayofweek\<close> of a timestamp: Monday is 0 and Sunday is 6.\<close>

definition dayofweek :: "timestamp \<Rightarrow> int" where
  "dayofweek ts = (days_from_civil (ts_year ts) (ts_month ts) (ts_day ts) + 3) mod 7"

definition digit_of :: "char \<Rightarrow> nat option" where
  "digit_of c =
     (let k = of_char c :: nat in if 48 \<le> k \<and> k \<le> 57 then Some (k - 48) else None)"

fun number_of :: "nat \<Rightarrow> string \<Rightarrow> nat option" where
  "number_of acc [] = Some acc"
| "number_of acc (c # cs) =
     (case digit_of c of None \<Rightarrow> None | Some k \<Rightarrow> number_of (10 * acc + k) cs)"

definition field :: "string \<Rightarrow> nat \<Rightarrow> nat \<Rightarrow> nat option" where
  "field s i n = number_of 0 (take n (drop i s))"

text \<open>
  The strings \<^verbatim>\<open>YYYY-MM-DD HH:MM:SS\<close> that name a date of the calendar and a time of day,
  in the years that every resolution of a timestamp represents.
\<close>

definition parse_iso_datetime :: "string \<Rightarrow> timestamp option" where
  "parse_iso_datetime s =
     (if length s = 19 \<and> s ! 4 = CHR ''-'' \<and> s ! 7 = CHR ''-'' \<and> s ! 10 = CHR '' ''
         \<and> s ! 13 = CHR '':'' \<and> s ! 16 = CHR '':''
      then
        (case (field s 0 4, field s 5 2, field s 8 2, field s 11 2, field s 14 2, field s 17 2) of
           (Some y, Some m, Some d, Some h, Some mi, Some se) \<Rightarrow>
             (if 1678 \<le> y \<and> y \<le> 2261 \<and> 1 \<le> m \<and> m \<le> 12 \<and> 1 \<le> d
                 \<and> int d \<le> days_in_month (int y) (int m) \<and> h \<le> 23 \<and> mi \<le> 59 \<and> se \<le> 59
              then Some \<lparr>ts_year = int y, ts_month = int m, ts_day = int d,
                         ts_hour = int h, ts_minute = int mi, ts_second = int se\<rparr>
              else None)
         | _ \<Rightarrow> None)
      else None)"

text \<open>
  \<^verbatim>\<open>pd.to_datetime\<close> on one string. The strings of \<open>parse_iso_datetime\<close> denote the
  timestamp they spell. What the library does with every other string (other formats, or
  an exception) is the parameter \<open>other_formats\<close>.
\<close>

definition to_datetime :: "(string \<Rightarrow> pyexn + timestamp) \<Rightarrow> string \<Rightarrow> pyexn + timestamp" where
  "to_datetime other_formats s =
     (case parse_iso_datetime s of Some ts \<Rightarrow> Inr ts | None \<Rightarrow> other_formats s)"

section \<open>The prediction callback\<close>

text \<open>
  How a call of the callback ends: an exception leaves it (\<^verbatim>\<open>PreventUpdate\<close> is one), or
  it returns the text and the colour of the alert.
\<close>

datatype response = Raise pyexn | Return string string

definition PreventUpdate :: pyexn where
  "PreventUpdate = PyExn ''PreventUpdate'' []"

text \<open>What reaches the console: a printed line, or the traceback of an exception.\<close>

datatype log_event = Print string | PrintExc pyexn

text \<open>
  One run of the callback: its response, what it wrote to the console, and the tables it
  handed to \<^verbatim>\<open>model_pipeline.predict\<close>, in order.
\<close>

record outcome =
  response :: response
  console :: "log_event list"
  predict_calls :: "dataframe list"

definition EXPECTED_COLUMNS :: "string list" where
  "EXPECTED_COLUMNS =
     [''t1'', ''t2'', ''hum'', ''wind_speed'',
      ''weather_code'', ''is_holiday'', ''is_weekend'', ''season'',
      ''hour'', ''day_of_week'', ''month'']"

text \<open>The \<^verbatim>\<open>if\<close>/\<^verbatim>\<open>elif\<close> chain on the month: 0 spring, 1 summer, 2 fall, 3 winter.\<close>

definition season_calc :: "int \<Rightarrow> rat" where
  "season_calc month =
     (if month \<in> set [3, 4, 5] then 0
      else if month \<in> set [6, 7, 8] then 1
      else if month \<in> set [9, 10, 11] then 2
      else 3)"

text \<open>
  \<^verbatim>\<open>X_new[EXPECTED_COLUMNS]\<close>: the listed columns in the listed order, \<^verbatim>\<open>KeyError\<close> when
  a label is not a column (the text of the exception is rendered as the first such label).
\<close>

fun select_columns :: "(string \<times> pynum) list \<Rightarrow> string list \<Rightarrow> pyexn + (string \<times> pynum) list" where
  "select_columns row [] = Inr []"
| "select_columns row (c # cs) =
     (case map_of row c of
        None \<Rightarrow> Inl (PyExn ''KeyError'' c)
      | Some v \<Rightarrow>
          (case select_columns row cs of
             Inl e \<Rightarrow> Inl e
           | Inr r \<Rightarrow> Inr ((c, v) # r)))"

text \<open>
  Steps 4 and 5 of the callback, the part of the \<^verbatim>\<open>try\<close> block before the call of the
  model: the timestamp, the season, the row and the reordering of its columns.
\<close>

definition feature_table ::
  "(string \<Rightarrow> pyexn + timestamp) \<Rightarrow> string \<Rightarrow> pynum \<Rightarrow> pynum \<Rightarrow> pynum \<Rightarrow> pynum \<Rightarrow> pynum
     \<Rightarrow> pynum \<Rightarrow> pynum \<Rightarrow> pyexn + dataframe" where
  "feature_table other_formats date_str hour temp_feels humidity wind_speed weather
       is_holiday is_weekend =
     (case format_02d hour of
        Inl e \<Rightarrow> Inl e
      | Inr hh \<Rightarrow>
     (case to_datetime other_formats (date_str @ '' '' @ hh @ '':00:00'') of
        Inl e \<Rightarrow> Inl e
      | Inr timestamp \<Rightarrow>
     (let month = ts_month timestamp;
          season_calc = season_calc month
      in
     (case float_builtin weather of
        Inl e \<Rightarrow> Inl e
      | Inr weather_code \<Rightarrow>
     (case int_to_float (ts_hour timestamp) of
        Inl e \<Rightarrow> Inl e
      | Inr hour_f \<Rightarrow>
     (case int_to_float (dayofweek timestamp) of
        Inl e \<Rightarrow> Inl e
      | Inr day_of_week \<Rightarrow>
     (case int_to_float (ts_month timestamp) of
        Inl e \<Rightarrow> Inl e
      | Inr month_f \<Rightarrow>
     (case select_columns
             [(''t1'', temp_feels),
              (''t2'', temp_feels),
              (''hum'', humidity),
              (''wind_speed'', wind_speed),
              (''weather_code'', PyFloat weather_code),
              (''is_holiday'', is_holiday),
              (''is_weekend'', is_weekend),
              (''season'', PyFloat (Finite season_calc)),
              (''hour'', PyFloat hour_f),
              (''day_of_week'', PyFloat day_of_week),
              (''month'', PyFloat month_f)]
             EXPECTED_COLUMNS of
        Inl e \<Rightarrow> Inl e
      | Inr cols \<Rightarrow> Inr \<lparr>df_columns = cols, df_index = timestamp\<rparr>))))))))"

text \<open>
  The body of the \<^verbatim>\<open>except Exception\<close> clause: three writes to the console and the
  message.
\<close>

definition prediction_failed :: "pyexn \<Rightarrow> dataframe list \<Rightarrow> outcome" where
  "prediction_failed e calls =
     \<lparr>response =
        Return (''Prediction Failed ('' @ exc_type_name e
                  @ ''). Please check the console traceback for details.'') ''danger'',
      console =
        [Print (CHR 0x0A # ''--- PREDICTION CALLBACK ERROR TRACEBACK ---''),
         PrintExc e,
         Print (''-------------------------------------------'' @ [CHR 0x0A])],
      predict_calls = calls\<rparr>"

text \<open>
  The one handler of the \<^verbatim>\<open>try\<close> statement, \<^verbatim>\<open>except Exception as e\<close>: an instance of
  \<^verbatim>\<open>Exception\<close> enters the clause, every other exception leaves the callback. \<open>calls\<close>
  are the tables handed to the model before the exception.
\<close>

definition except_Exception :: "pyexn \<Rightarrow> dataframe list \<Rightarrow> outcome" where
  "except_Exception e calls =
     (if is_Exception e then prediction_failed e calls
      else \<lparr>response = Raise e, console = [], predict_calls = calls\<rparr>)"

text \<open>
  The callback. \<open>model_pipeline\<close> is the estimator of \<^verbatim>\<open>app.py\<close>, \<open>None\<close> when it was not
  loaded; of a loaded one the callback uses \<^verbatim>\<open>predict(X)[0]\<close>, which gives a float or
  raises. \<open>n_clicks\<close> is \<open>None\<close> until the button is clicked.
\<close>

definition calculate_prediction ::
  "(string \<Rightarrow> pyexn + timestamp) \<Rightarrow> (dataframe \<Rightarrow> pyexn + pyfloat) option \<Rightarrow> int option
     \<Rightarrow> string option \<Rightarrow> pynum option \<Rightarrow> pynum option \<Rightarrow> pynum option \<Rightarrow> pynum option
     \<Rightarrow> pynum option \<Rightarrow> pynum option \<Rightarrow> pynum option \<Rightarrow> outcome" where
  "calculate_prediction other_formats model_pipeline n_clicks date_str hour temp_feels humidity
       wind_speed weather is_holiday is_weekend =
     (if n_clicks = None \<or> n_clicks = Some 0
      then \<lparr>response = Raise PreventUpdate, console = [], predict_calls = []\<rparr>
      else
     (case model_pipeline of
        None \<Rightarrow>
          \<lparr>response =
             Return ''Model not loaded. Check app.py console for loading error.'' ''danger'',
           console = [], predict_calls = []\<rparr>
      | Some predict \<Rightarrow>
     (if date_str = None \<or> hour = None \<or> temp_feels = None \<or> humidity = None
         \<or> wind_speed = None \<or> weather = None \<or> is_holiday = None \<or> is_weekend = None
      then
        \<lparr>response =
           Return ''Please ensure all input fields have a valid value selected.'' ''warning'',
         console = [], predict_calls = []\<rparr>
      else
     (case feature_table other_formats (the date_str) (the hour) (the temp_feels)
             (the humidity) (the wind_speed) (the weather) (the is_holiday) (the is_weekend) of
        Inl e \<Rightarrow> except_Exception e []
      | Inr X_new \<Rightarrow>
     (case predict X_new of
        Inl e \<Rightarrow> except_Exception e [X_new]
      | Inr prediction_value \<Rightarrow>
     (case int_round prediction_value of
        Inl e \<Rightarrow> except_Exception e [X_new]
      | Inr rounded \<Rightarrow>
          (let predicted_count = max 0 rounded in
           \<lparr>response =
              Return (''Predicted Hourly Bike Shares: '' @ format_comma predicted_count)
                ''success'',
            console = [], predict_calls = [X_new]\<rparr>)))))))"

text \<open>
  Instances of the two parameters, for evaluating the callback on concrete inputs: a
  library that raises on every string outside \<open>parse_iso_datetime\<close>, a library that reads
  every such string as one timestamp, an estimator that predicts one value for every
  table, and one that raises.
\<close>

definition reject_other_formats :: "string \<Rightarrow> pyexn + timestamp" where
  "reject_other_formats s = Inl (PyExn ''DateParseError'' s)"


definition constant_model :: "pyfloat \<Rightarrow> dataframe \<Rightarrow> pyexn + pyfloat" where
  "constant_model v X = Inr v"

definition raising_model :: "pyexn \<Rightarrow> dataframe \<Rightarrow> pyexn + pyfloat" where
  "raising_model e X = Inl e"

section \<open>Routing\<close>





section \<open>Auxiliary facts\<close>

lemma select_columns_labels: "select_columns row cs = Inr r \<Longrightarrow> map fst r = cs"
  by (induction cs arbitrary: r) (auto split: option.splits sum.splits)

lemma select_feature_row:
  "select_columns
     [(''t1'', a), (''t2'', b), (''hum'', c), (''wind_speed'', d), (''weather_code'', e),
      (''is_holiday'', f), (''is_weekend'', g), (''season'', h), (''hour'', i),
      (''day_of_week'', j), (''month'', k)] EXPECTED_COLUMNS =
   Inr [(''t1'', a), (''t2'', b), (''hum'', c), (''wind_speed'', d), (''weather_code'', e),
      (''is_holiday'', f), (''is_weekend'', g), (''season'', h), (''hour'', i),
      (''day_of_week'', j), (''month'', k)]"
  by (simp add: EXPECTED_COLUMNS_def)

lemma feature_table_Inr:
  assumes "feature_table fb d h t hu w we ho wk = Inr X"
  shows "\<exists>hh ts wc hf dw mf.
           format_02d h = Inr hh \<and> to_datetime fb (d @ '' '' @ hh @ '':00:00'') = Inr ts
           \<and> float_builtin we = Inr wc \<and> int_to_float (ts_hour ts) = Inr hf
           \<and> int_to_float (dayofweek ts) = Inr dw \<and> int_to_float (ts_month ts) = Inr mf
           \<and> X = \<lparr>df_columns =
                   [(''t1'', t), (''t2'', t), (''hum'', hu), (''wind_speed'', w),
                    (''weather_code'', PyFloat wc), (''is_holiday'', ho), (''is_weekend'', wk),
                    (''season'', PyFloat (Finite (season_calc (ts_month ts)))),
                    (''hour'', PyFloat hf), (''day_of_week'', PyFloat dw),
                    (''month'', PyFloat mf)],
                  df_index = ts\<rparr>"
  using assms
  by (auto simp: feature_table_def select_feature_row Let_def split: sum.splits)

lemma predict_calls_cases:
  assumes "X \<in> set (predict_calls (calculate_prediction fb mp n d h t hu w we ho wk))"
  shows "\<exists>d' h' t' hu' w' we' ho' wk'.
           d = Some d' \<and> h = Some h' \<and> t = Some t' \<and> hu = Some hu' \<and> w = Some w'
           \<and> we = Some we' \<and> ho = Some ho' \<and> wk = Some wk'
           \<and> feature_table fb d' h' t' hu' w' we' ho' wk' = Inr X"
  using assms
  by (auto simp: calculate_prediction_def except_Exception_def prediction_failed_def Let_def
           split: if_splits option.splits sum.splits)

lemma predict_calls_loaded:
  assumes "n = Some k" and "k \<noteq> 0"
  shows "predict_calls (calculate_prediction fb (Some m) n (Some d) (Some h) (Some t) (Some hu)
           (Some w) (Some we) (Some ho) (Some wk)) =
         (case feature_table fb d h t hu w we ho wk of Inl e \<Rightarrow> [] | Inr X \<Rightarrow> [X])"
  using assms
  by (auto simp: calculate_prediction_def except_Exception_def prediction_failed_def Let_def
           split: if_splits option.splits sum.splits)

lemma predict_calls_missing:
  assumes "d = None \<or> h = None \<or> t = None \<or> hu = None \<or> w = None \<or> we = None
             \<or> ho = None \<or> wk = None"
  shows "predict_calls (calculate_prediction fb mp n d h t hu w we ho wk) = []"
  using assms
  by (auto simp: calculate_prediction_def split: option.splits)



lemma sample_table:
  "feature_table reject_other_formats ''2024-07-15'' (PyInt 10) (PyFloat (Finite (31 / 2)))
     (PyInt 60) (PyInt 20) (PyInt 3) (PyInt 0) (PyInt 0) =
   Inr \<lparr>df_columns =
          [(''t1'', PyFloat (Finite (31 / 2))), (''t2'', PyFloat (Finite (31 / 2))),
           (''hum'', PyInt 60), (''wind_speed'', PyInt 20),
           (''weather_code'', PyFloat (Finite 3)), (''is_holiday'', PyInt 0),
           (''is_weekend'', PyInt 0), (''season'', PyFloat (Finite 1)),
           (''hour'', PyFloat (Finite 10)), (''day_of_week'', PyFloat (Finite 0)),
           (''month'', PyFloat (Finite 7))],
         df_index = \<lparr>ts_year = 2024, ts_month = 7, ts_day = 15, ts_hour = 10,
                      ts_minute = 0, ts_second = 0\<rparr>\<rparr>"
  by code_simp





lemma select_columns_values:
  "select_columns row cs = Inr r \<Longrightarrow> r = map (\<lambda>c. (c, the (map_of row c))) cs"
  by (induction cs arbitrary: r) (auto split: option.splits sum.splits)


section \<open>The unloaded model\<close>

text \<open>
  Claim C4. When the button has been clicked at least once and the model pipeline was not
  loaded, the callback returns the message that the model is not loaded, with the colour
  \<^verbatim>\<open>danger\<close>, whatever the eight inputs are: nothing is written to the console and no
  table is handed to a model, so neither the features nor a prediction are computed.
\<close>

theorem unloaded_model_returns_error:
  assumes "n_clicks = Some k" and "1 \<le> k"
  shows "calculate_prediction other_formats None n_clicks date_str hour temp_feels humidity
           wind_speed weather is_holiday is_weekend =
         \<lparr>response =
            Return ''Model not loaded. Check app.py console for loading error.'' ''danger'',
          console = [], predict_calls = []\<rparr>"
  using assms by (simp add: calculate_prediction_def)

theorem unloaded_model_returns_error_witness:
  "calculate_prediction reject_other_formats None (Some 1) (Some ''2024-07-15'')
     (Some (PyInt 10)) (Some (PyFloat (Finite (31 / 2)))) (Some (PyInt 60)) (Some (PyInt 20))
     (Some (PyInt 3)) (Some (PyInt 0)) (Some (PyInt 0)) =
   \<lparr>response =
      Return ''Model not loaded. Check app.py console for loading error.'' ''danger'',
    console = [], predict_calls = []\<rparr>"
proof -
  have clicked: "(1::int) \<le> 1" by simp
  show ?thesis
    by (rule unloaded_model_returns_error [OF refl clicked])
qed

section \<open>The table handed to the model\<close>

text \<open>
  Claim C1. Every table that the callback hands to the \<^verbatim>\<open>predict\<close> method of the model has
  exactly the eleven columns t1, t2, hum, wind_speed, weather_code, is_holiday, is_weekend,
  season, hour, day_of_week, month, in this order. The order does not come from the order
  in which the row was assembled: whatever row the columns are selected from, a selection
  that succeeds has the columns in this order, each with the value that the row holds
  under its label.
\<close>

theorem predict_table_has_expected_columns:
  "(\<forall>X \<in> set (predict_calls (calculate_prediction other_formats model_pipeline n_clicks
        date_str hour temp_feels humidity wind_speed weather is_holiday is_weekend)).
      map fst (df_columns X) =
        [''t1'', ''t2'', ''hum'', ''wind_speed'', ''weather_code'', ''is_holiday'',
         ''is_weekend'', ''season'', ''hour'', ''day_of_week'', ''month''])
   \<and> (\<forall>row cols. select_columns row EXPECTED_COLUMNS = Inr cols \<longrightarrow>
        map fst cols =
          [''t1'', ''t2'', ''hum'', ''wind_speed'', ''weather_code'', ''is_holiday'',
           ''is_weekend'', ''season'', ''hour'', ''day_of_week'', ''month'']
        \<and> cols = map (\<lambda>c. (c, the (map_of row c))) EXPECTED_COLUMNS)"
proof (intro conjI ballI allI impI)
  fix X
  assume "X \<in> set (predict_calls (calculate_prediction other_formats model_pipeline n_clicks
        date_str hour temp_feels humidity wind_speed weather is_holiday is_weekend))"
  from predict_calls_cases [OF this] obtain d h t hu w we ho wk
    where "feature_table other_formats d h t hu w we ho wk = Inr X"
    by blast
  then show "map fst (df_columns X) =
        [''t1'', ''t2'', ''hum'', ''wind_speed'', ''weather_code'', ''is_holiday'',
         ''is_weekend'', ''season'', ''hour'', ''day_of_week'', ''month'']"
    by (auto dest!: feature_table_Inr)
next
  fix row cols
  assume "select_columns row EXPECTED_COLUMNS = Inr cols"
  then have "map fst cols = EXPECTED_COLUMNS"
    by (rule select_columns_labels)
  then show "map fst cols =
        [''t1'', ''t2'', ''hum'', ''wind_speed'', ''weather_code'', ''is_holiday'',
         ''is_weekend'', ''season'', ''hour'', ''day_of_week'', ''month'']"
    by (simp add: EXPECTED_COLUMNS_def)
next
  fix row cols
  assume "select_columns row EXPECTED_COLUMNS = Inr cols"
  then show "cols = map (\<lambda>c. (c, the (map_of row c))) EXPECTED_COLUMNS"
    by (rule select_columns_values)
qed

theorem predict_table_has_expected_columns_witness:
  "map (\<lambda>X. map fst (df_columns X))
     (predict_calls (calculate_prediction reject_other_formats
        (Some (constant_model (Finite 100))) (Some 1) (Some ''2024-07-15'') (Some (PyInt 10))
        (Some (PyFloat (Finite (31 / 2)))) (Some (PyInt 60)) (Some (PyInt 20))
        (Some (PyInt 3)) (Some (PyInt 0)) (Some (PyInt 0)))) =
   [[''t1'', ''t2'', ''hum'', ''wind_speed'', ''weather_code'', ''is_holiday'',
     ''is_weekend'', ''season'', ''hour'', ''day_of_week'', ''month'']]
   \<and> map_sum id (map fst)
       (select_columns
          [(''month'', PyInt 7), (''day_of_week'', PyInt 0), (''hour'', PyInt 10),
           (''season'', PyInt 1), (''is_weekend'', PyInt 0), (''is_holiday'', PyInt 0),
           (''weather_code'', PyInt 3), (''wind_speed'', PyInt 20), (''hum'', PyInt 60),
           (''t2'', PyInt 15), (''t1'', PyInt 15)] EXPECTED_COLUMNS) =
     Inr [''t1'', ''t2'', ''hum'', ''wind_speed'', ''weather_code'', ''is_holiday'',
          ''is_weekend'', ''season'', ''hour'', ''day_of_week'', ''month'']"
proof -
  let ?row = "[(''month'', PyInt 7), (''day_of_week'', PyInt 0), (''hour'', PyInt 10),
           (''season'', PyInt 1), (''is_weekend'', PyInt 0), (''is_holiday'', PyInt 0),
           (''weather_code'', PyInt 3), (''wind_speed'', PyInt 20), (''hum'', PyInt 60),
           (''t2'', PyInt 15), (''t1'', PyInt 15)]"
  let ?call = "calculate_prediction reject_other_formats
        (Some (constant_model (Finite 100))) (Some 1) (Some ''2024-07-15'') (Some (PyInt 10))
        (Some (PyFloat (Finite (31 / 2)))) (Some (PyInt 60)) (Some (PyInt 20))
        (Some (PyInt 3)) (Some (PyInt 0)) (Some (PyInt 0))"
  obtain X where calls: "predict_calls ?call = [X]"
    by (simp add: predict_calls_loaded sample_table)
  obtain cols where sel: "select_columns ?row EXPECTED_COLUMNS = Inr cols"
    by (simp add: EXPECTED_COLUMNS_def)
  note columns = predict_table_has_expected_columns [of reject_other_formats
        "Some (constant_model (Finite 100))" "Some 1" "Some ''2024-07-15''" "Some (PyInt 10)"
        "Some (PyFloat (Finite (31 / 2)))" "Some (PyInt 60)" "Some (PyInt 20)"
        "Some (PyInt 3)" "Some (PyInt 0)" "Some (PyInt 0)"]
  from columns calls have "map fst (df_columns X) =
        [''t1'', ''t2'', ''hum'', ''wind_speed'', ''weather_code'', ''is_holiday'',
         ''is_weekend'', ''season'', ''hour'', ''day_of_week'', ''month'']"
    by simp
  moreover from columns sel have "map fst cols =
        [''t1'', ''t2'', ''hum'', ''wind_speed'', ''weather_code'', ''is_holiday'',
         ''is_weekend'', ''season'', ''hour'', ''day_of_week'', ''month'']"
    by blast
  ultimately show ?thesis
    using calls sel by simp
qed

text \<open>
  Claim C10. In every table handed to the model, the columns t1 and t2 hold the same value:
  both hold the value of the one temperature input of the form.
\<close>

theorem t1_equals_t2:
  "\<forall>X \<in> set (predict_calls (calculate_prediction other_formats model_pipeline n_clicks
        date_str hour temp_feels humidity wind_speed weather is_holiday is_weekend)).
      map_of (df_columns X) ''t1'' = map_of (df_columns X) ''t2''
      \<and> map_of (df_columns X) ''t1'' = temp_feels
      \<and> temp_feels \<noteq> None"
proof
  fix X
  assume "X \<in> set (predict_calls (calculate_prediction other_formats model_pipeline n_clicks
        date_str hour temp_feels humidity wind_speed weather is_holiday is_weekend))"
  from predict_calls_cases [OF this] obtain d h t hu w we ho wk
    where "temp_feels = Some t" and "feature_table other_formats d h t hu w we ho wk = Inr X"
    by blast
  then show "map_of (df_columns X) ''t1'' = map_of (df_columns X) ''t2''
      \<and> map_of (df_columns X) ''t1'' = temp_feels \<and> temp_feels \<noteq> None"
    by (auto dest!: feature_table_Inr)
qed

theorem t1_equals_t2_witness:
  "map (\<lambda>X. (map_of (df_columns X) ''t1'', map_of (df_columns X) ''t2''))
     (predict_calls (calculate_prediction reject_other_formats
        (Some (constant_model (Finite 100))) (Some 1) (Some ''2024-07-15'') (Some (PyInt 10))
        (Some (PyFloat (Finite (31 / 2)))) (Some (PyInt 60)) (Some (PyInt 20))
        (Some (PyInt 3)) (Some (PyInt 0)) (Some (PyInt 0)))) =
   [(Some (PyFloat (Finite (31 / 2))), Some (PyFloat (Finite (31 / 2))))]"
proof -
  let ?call = "calculate_prediction reject_other_formats
        (Some (constant_model (Finite 100))) (Some 1) (Some ''2024-07-15'') (Some (PyInt 10))
        (Some (PyFloat (Finite (31 / 2)))) (Some (PyInt 60)) (Some (PyInt 20))
        (Some (PyInt 3)) (Some (PyInt 0)) (Some (PyInt 0))"
  obtain X where calls: "predict_calls ?call = [X]"
    by (simp add: predict_calls_loaded sample_table)
  from t1_equals_t2 [of reject_other_formats
        "Some (constant_model (Finite 100))" "Some 1" "Some ''2024-07-15''" "Some (PyInt 10)"
        "Some (PyFloat (Finite (31 / 2)))" "Some (PyInt 60)" "Some (PyInt 20)"
        "Some (PyInt 3)" "Some (PyInt 0)" "Some (PyInt 0)"] calls
  have "map_of (df_columns X) ''t1'' = Some (PyFloat (Finite (31 / 2)))"
    and "map_of (df_columns X) ''t2'' = Some (PyFloat (Finite (31 / 2)))"
    by auto
  then show ?thesis
    using calls by simp
qed

section \<open>The season\<close>

text \<open>
  Claim C2. In every table handed to the model, the season follows the month of the
  timestamp that was parsed from the date and the hour of the form, and that timestamp is
  the index of the table: the months March to May give 0.0 (spring), June to August give
  1.0 (summer), September to November give 2.0 (fall), and December to February give 3.0
  (winter).
\<close>

theorem season_matches_month:
  "\<forall>X \<in> set (predict_calls (calculate_prediction other_formats model_pipeline n_clicks
        date_str hour temp_feels humidity wind_speed weather is_holiday is_weekend)).
      \<exists>hh. format_02d (the hour) = Inr hh
        \<and> to_datetime other_formats (the date_str @ '' '' @ hh @ '':00:00'') = Inr (df_index X)
        \<and> (ts_month (df_index X) \<in> {3, 4, 5} \<longrightarrow>
             map_of (df_columns X) ''season'' = Some (PyFloat (Finite 0)))
        \<and> (ts_month (df_index X) \<in> {6, 7, 8} \<longrightarrow>
             map_of (df_columns X) ''season'' = Some (PyFloat (Finite 1)))
        \<and> (ts_month (df_index X) \<in> {9, 10, 11} \<longrightarrow>
             map_of (df_columns X) ''season'' = Some (PyFloat (Finite 2)))
        \<and> (ts_month (df_index X) \<in> {12, 1, 2} \<longrightarrow>
             map_of (df_columns X) ''season'' = Some (PyFloat (Finite 3)))"
proof
  fix X
  assume "X \<in> set (predict_calls (calculate_prediction other_formats model_pipeline n_clicks
        date_str hour temp_feels humidity wind_speed weather is_holiday is_weekend))"
  from predict_calls_cases [OF this] obtain d h t hu w we ho wk
    where inputs: "date_str = Some d" "hour = Some h"
      and table: "feature_table other_formats d h t hu w we ho wk = Inr X"
    by blast
  from feature_table_Inr [OF table] obtain hh ts
    where hh: "format_02d h = Inr hh"
      and ts: "to_datetime other_formats (d @ '' '' @ hh @ '':00:00'') = Inr ts"
      and index: "df_index X = ts"
      and season: "map_of (df_columns X) ''season'' =
                     Some (PyFloat (Finite (season_calc (ts_month ts))))"
    by auto
  have "(ts_month ts \<in> {3, 4, 5} \<longrightarrow> season_calc (ts_month ts) = 0)
      \<and> (ts_month ts \<in> {6, 7, 8} \<longrightarrow> season_calc (ts_month ts) = 1)
      \<and> (ts_month ts \<in> {9, 10, 11} \<longrightarrow> season_calc (ts_month ts) = 2)
      \<and> (ts_month ts \<in> {12, 1, 2} \<longrightarrow> season_calc (ts_month ts) = 3)"
    by (auto simp: season_calc_def)
  with inputs hh ts index season
  show "\<exists>hh. format_02d (the hour) = Inr hh
        \<and> to_datetime other_formats (the date_str @ '' '' @ hh @ '':00:00'') = Inr (df_index X)
        \<and> (ts_month (df_index X) \<in> {3, 4, 5} \<longrightarrow>
             map_of (df_columns X) ''season'' = Some (PyFloat (Finite 0)))
        \<and> (ts_month (df_index X) \<in> {6, 7, 8} \<longrightarrow>
             map_of (df_columns X) ''season'' = Some (PyFloat (Finite 1)))
        \<and> (ts_month (df_index X) \<in> {9, 10, 11} \<longrightarrow>
             map_of (df_columns X) ''season'' = Some (PyFloat (Finite 2)))
        \<and> (ts_month (df_index X) \<in> {12, 1, 2} \<longrightarrow>
             map_of (df_columns X) ''season'' = Some (PyFloat (Finite 3)))"
    by simp
qed

theorem season_matches_month_witness:
  "map (\<lambda>X. (ts_month (df_index X), map_of (df_columns X) ''season''))
     (predict_calls (calculate_prediction reject_other_formats
        (Some (constant_model (Finite 100))) (Some 1) (Some ''2024-04-30'')
        (Some (PyInt 10)) (Some (PyFloat (Finite (31 / 2)))) (Some (PyInt 60))
        (Some (PyInt 20)) (Some (PyInt 3)) (Some (PyInt 0)) (Some (PyInt 0)))) =
   [(4, Some (PyFloat (Finite 0)))]
   \<and> map (\<lambda>X. (ts_month (df_index X), map_of (df_columns X) ''season''))
     (predict_calls (calculate_prediction reject_other_formats
        (Some (constant_model (Finite 100))) (Some 1) (Some ''2024-07-15'')
        (Some (PyInt 10)) (Some (PyFloat (Finite (31 / 2)))) (Some (PyInt 60))
        (Some (PyInt 20)) (Some (PyInt 3)) (Some (PyInt 0)) (Some (PyInt 0)))) =
   [(7, Some (PyFloat (Finite 1)))]
   \<and> map (\<lambda>X. (ts_month (df_index X), map_of (df_columns X) ''season''))
     (predict_calls (calculate_prediction reject_other_formats
        (Some (constant_model (Finite 100))) (Some 1) (Some ''2024-10-01'')
        (Some (PyInt 10)) (Some (PyFloat (Finite (31 / 2)))) (Some (PyInt 60))
        (Some (PyInt 20)) (Some (PyInt 3)) (Some (PyInt 0)) (Some (PyInt 0)))) =
   [(10, Some (PyFloat (Finite 2)))]
   \<and> map (\<lambda>X. (ts_month (df_index X), map_of (df_columns X) ''season''))
     (predict_calls (calculate_prediction reject_other_formats
        (Some (constant_model (Finite 100))) (Some 1) (Some ''2025-01-25'')
        (Some (PyInt 10)) (Some (PyFloat (Finite (31 / 2)))) (Some (PyInt 60))
        (Some (PyInt 20)) (Some (PyInt 3)) (Some (PyInt 0)) (Some (PyInt 0)))) =
   [(1, Some (PyFloat (Finite 3)))]"
proof -
  have "map (\<lambda>X. (ts_month (df_index X), map_of (df_columns X) ''season''))
          (predict_calls (calculate_prediction reject_other_formats
             (Some (constant_model (Finite 100))) (Some 1) (Some ''2024-04-30'')
             (Some (PyInt 10)) (Some (PyFloat (Finite (31 / 2)))) (Some (PyInt 60))
             (Some (PyInt 20)) (Some (PyInt 3)) (Some (PyInt 0)) (Some (PyInt 0)))) =
        [(4, Some (PyFloat (Finite 0)))]"
  proof -
    let ?call = "calculate_prediction reject_other_formats
             (Some (constant_model (Finite 100))) (Some 1) (Some ''2024-04-30'')
             (Some (PyInt 10)) (Some (PyFloat (Finite (31 / 2)))) (Some (PyInt 60))
             (Some (PyInt 20)) (Some (PyInt 3)) (Some (PyInt 0)) (Some (PyInt 0))"
    have "map (\<lambda>X. ts_month (df_index X)) (predict_calls ?call) = [4]"
      by code_simp
    then obtain X where calls: "predict_calls ?call = [X]" and month: "ts_month (df_index X) = 4"
      by auto
    from season_matches_month [of reject_other_formats
        "Some (constant_model (Finite 100))" "Some 1" "Some ''2024-04-30''" "Some (PyInt 10)"
        "Some (PyFloat (Finite (31 / 2)))" "Some (PyInt 60)" "Some (PyInt 20)"
        "Some (PyInt 3)" "Some (PyInt 0)" "Some (PyInt 0)"] calls month
    have "map_of (df_columns X) ''season'' = Some (PyFloat (Finite 0))"
      by auto
    with calls month show ?thesis
      by simp
  qed
  moreover
  have "map (\<lambda>X. (ts_month (df_index X), map_of (df_columns X) ''season''))
          (predict_calls (calculate_prediction reject_other_formats
             (Some (constant_model (Finite 100))) (Some 1) (Some ''2024-07-15'')
             (Some (PyInt 10)) (Some (PyFloat (Finite (31 / 2)))) (Some (PyInt 60))
             (Some (PyInt 20)) (Some (PyInt 3)) (Some (PyInt 0)) (Some (PyInt 0)))) =
        [(7, Some (PyFloat (Finite 1)))]"
  proof -
    let ?call = "calculate_prediction reject_other_formats
             (Some (constant_model (Finite 100))) (Some 1) (Some ''2024-07-15'')
             (Some (PyInt 10)) (Some (PyFloat (Finite (31 / 2)))) (Some (PyInt 60))
             (Some (PyInt 20)) (Some (PyInt 3)) (Some (PyInt 0)) (Some (PyInt 0))"
    have "map (\<lambda>X. ts_month (df_index X)) (predict_calls ?call) = [7]"
      by code_simp
    then obtain X where calls: "predict_calls ?call = [X]" and month: "ts_month (df_index X) = 7"
      by auto
    from season_matches_month [of reject_other_formats
        "Some (constant_model (Finite 100))" "Some 1" "Some ''2024-07-15''" "Some (PyInt 10)"
        "Some (PyFloat (Finite (31 / 2)))" "Some (PyInt 60)" "Some (PyInt 20)"
        "Some (PyInt 3)" "Some (PyInt 0)" "Some (PyInt 0)"] calls month
    have "map_of (df_columns X) ''season'' = Some (PyFloat (Finite 1))"
      by auto
    with calls month show ?thesis
      by simp
  qed
  moreover
  have "map (\<lambda>X. (ts_month (df_index X), map_of (df_columns X) ''season''))
          (predict_calls (calculate_prediction reject_other_formats
             (Some (constant_model (Finite 100))) (Some 1) (Some ''2024-10-01'')
             (Some (PyInt 10)) (Some (PyFloat (Finite (31 / 2)))) (Some (PyInt 60))
             (Some (PyInt 20)) (Some (PyInt 3)) (Some (PyInt 0)) (Some (PyInt 0)))) =
        [(10, Some (PyFloat (Finite 2)))]"
  proof -
    let ?call = "calculate_prediction reject_other_formats
             (Some (constant_model (Finite 100))) (Some 1) (Some ''2024-10-01'')
             (Some (PyInt 10)) (Some (PyFloat (Finite (31 / 2)))) (Some (PyInt 60))
             (Some (PyInt 20)) (Some (PyInt 3)) (Some (PyInt 0)) (Some (PyInt 0))"
    have "map (\<lambda>X. ts_month (df_index X)) (predict_calls ?call) = [10]"
      by code_simp
    then obtain X where calls: "predict_calls ?call = [X]" and month: "ts_month (df_index X) = 10"
      by auto
    from season_matches_month [of reject_other_formats
        "Some (constant_model (Finite 100))" "Some 1" "Some ''2024-10-01''" "Some (PyInt 10)"
        "Some (PyFloat (Finite (31 / 2)))" "Some (PyInt 60)" "Some (PyInt 20)"
        "Some (PyInt 3)" "Some (PyInt 0)" "Some (PyInt 0)"] calls month
    have "map_of (df_columns X) ''season'' = Some (PyFloat (Finite 2))"
      by auto
    with calls month show ?thesis
      by simp
  qed
  moreover
  have "map (\<lambda>X. (ts_month (df_index X), map_of (df_columns X) ''season''))
          (predict_calls (calculate_prediction reject_other_formats
             (Some (constant_model (Finite 100))) (Some 1) (Some ''2025-01-25'')
             (Some (PyInt 10)) (Some (PyFloat (Finite (31 / 2)))) (Some (PyInt 60))
             (Some (PyInt 20)) (Some (PyInt 3)) (Some (PyInt 0)) (Some (PyInt 0)))) =
        [(1, Some (PyFloat (Finite 3)))]"
  proof -
    let ?call = "calculate_prediction reject_other_formats
             (Some (constant_model (Finite 100))) (Some 1) (Some ''2025-01-25'')
             (Some (PyInt 10)) (Some (PyFloat (Finite (31 / 2)))) (Some (PyInt 60))
             (Some (PyInt 20)) (Some (PyInt 3)) (Some (PyInt 0)) (Some (PyInt 0))"
    have "map (\<lambda>X. ts_month (df_index X)) (predict_calls ?call) = [1]"
      by code_simp
    then obtain X where calls: "predict_calls ?call = [X]" and month: "ts_month (df_index X) = 1"
      by auto
    from season_matches_month [of reject_other_formats
        "Some (constant_model (Finite 100))" "Some 1" "Some ''2025-01-25''" "Some (PyInt 10)"
        "Some (PyFloat (Finite (31 / 2)))" "Some (PyInt 60)" "Some (PyInt 20)"
        "Some (PyInt 3)" "Some (PyInt 0)" "Some (PyInt 0)"] calls month
    have "map_of (df_columns X) ''season'' = Some (PyFloat (Finite 3))"
      by auto
    with calls month show ?thesis
      by simp
  qed
  ultimately show ?thesis
    by blast
qed

section \<open>Missing inputs\<close>

text \<open>
  Claim C3, as stated: after a click, a \<^verbatim>\<open>None\<close> among the eight inputs always gives the
  warning. The callback looks at the model first: with no model loaded and no date, it
  returns the message of the unloaded model and the colour \<^verbatim>\<open>danger\<close>.
\<close>

theorem missing_input_without_model:
  "response (calculate_prediction reject_other_formats None (Some 1) None (Some (PyInt 10))
      (Some (PyFloat (Finite (31 / 2)))) (Some (PyInt 60)) (Some (PyInt 20)) (Some (PyInt 3))
      (Some (PyInt 0)) (Some (PyInt 0))) =
     Return ''Model not loaded. Check app.py console for loading error.'' ''danger''
   \<and> response (calculate_prediction reject_other_formats None (Some 1) None (Some (PyInt 10))
      (Some (PyFloat (Finite (31 / 2)))) (Some (PyInt 60)) (Some (PyInt 20)) (Some (PyInt 3))
      (Some (PyInt 0)) (Some (PyInt 0))) \<noteq>
     Return ''Please ensure all input fields have a valid value selected.'' ''warning''"
  by (simp add: calculate_prediction_def)

text \<open>
  Claim C3, amended. After at least one click, when any of the eight inputs is \<^verbatim>\<open>None\<close>,
  no table is handed to the model, and when the model pipeline is loaded the callback
  returns the warning message with the colour \<^verbatim>\<open>warning\<close> and writes nothing to the
  console.
\<close>

theorem missing_input_gives_warning:
  assumes "n_clicks = Some k" and "1 \<le> k"
    and "date_str = None \<or> hour = None \<or> temp_feels = None \<or> humidity = None
           \<or> wind_speed = None \<or> weather = None \<or> is_holiday = None \<or> is_weekend = None"
  shows "predict_calls (calculate_prediction other_formats model_pipeline n_clicks date_str hour
           temp_feels humidity wind_speed weather is_holiday is_weekend) = []
         \<and> (model_pipeline \<noteq> None \<longrightarrow>
              calculate_prediction other_formats model_pipeline n_clicks date_str hour
                temp_feels humidity wind_speed weather is_holiday is_weekend =
              \<lparr>response =
                 Return ''Please ensure all input fields have a valid value selected.''
                   ''warning'',
               console = [], predict_calls = []\<rparr>)"
proof (intro conjI impI)
  show "predict_calls (calculate_prediction other_formats model_pipeline n_clicks date_str hour
           temp_feels humidity wind_speed weather is_holiday is_weekend) = []"
    using assms(3) by (rule predict_calls_missing)
next
  assume "model_pipeline \<noteq> None"
  then obtain predict where "model_pipeline = Some predict"
    by auto
  with assms show "calculate_prediction other_formats model_pipeline n_clicks date_str hour
                temp_feels humidity wind_speed weather is_holiday is_weekend =
              \<lparr>response =
                 Return ''Please ensure all input fields have a valid value selected.''
                   ''warning'',
               console = [], predict_calls = []\<rparr>"
    by (simp add: calculate_prediction_def)
qed

theorem missing_input_gives_warning_witness:
  "calculate_prediction reject_other_formats (Some (constant_model (Finite 100))) (Some 1)
     (Some ''2024-07-15'') (Some (PyInt 10)) (Some (PyFloat (Finite (31 / 2)))) None
     (Some (PyInt 20)) (Some (PyInt 3)) (Some (PyInt 0)) (Some (PyInt 0)) =
   \<lparr>response =
      Return ''Please ensure all input fields have a valid value selected.'' ''warning'',
    console = [], predict_calls = []\<rparr>"
proof -
  have clicked: "(1::int) \<le> 1"
    by simp
  have missing: "Some ''2024-07-15'' = None \<or> Some (PyInt 10) = None
      \<or> Some (PyFloat (Finite (31 / 2))) = None \<or> (None :: pynum option) = None
      \<or> Some (PyInt 20) = None \<or> Some (PyInt 3) = None \<or> Some (PyInt 0) = None
      \<or> Some (PyInt 0) = None"
    by simp
  from missing_input_gives_warning [OF refl clicked missing,
      of reject_other_formats "Some (constant_model (Finite 100))"]
  show ?thesis
    by simp
qed

section \<open>Exceptions\<close>

text \<open>
  Claim C5, as stated: every exception raised while the features are built or by the
  \<^verbatim>\<open>predict\<close> method of the model is caught. The handler is \<^verbatim>\<open>except Exception\<close>: a
  \<^verbatim>\<open>KeyboardInterrupt\<close> raised by \<^verbatim>\<open>predict\<close> is no instance of \<^verbatim>\<open>Exception\<close> and leaves
  the callback, which writes nothing to the console and returns no message.
\<close>

theorem keyboard_interrupt_propagates:
  "response (calculate_prediction reject_other_formats
      (Some (raising_model (PyBaseExn ''KeyboardInterrupt'' []))) (Some 1)
      (Some ''2024-07-15'') (Some (PyInt 10)) (Some (PyFloat (Finite (31 / 2))))
      (Some (PyInt 60)) (Some (PyInt 20)) (Some (PyInt 3)) (Some (PyInt 0))
      (Some (PyInt 0))) =
     Raise (PyBaseExn ''KeyboardInterrupt'' [])
   \<and> console (calculate_prediction reject_other_formats
      (Some (raising_model (PyBaseExn ''KeyboardInterrupt'' []))) (Some 1)
      (Some ''2024-07-15'') (Some (PyInt 10)) (Some (PyFloat (Finite (31 / 2))))
      (Some (PyInt 60)) (Some (PyInt 20)) (Some (PyInt 3)) (Some (PyInt 0))
      (Some (PyInt 0))) = []"
  by (simp add: calculate_prediction_def sample_table raising_model_def except_Exception_def)

text \<open>
  Claim C5, amended. After at least one click, with a loaded model and all inputs present,
  an exception that is an instance of \<^verbatim>\<open>Exception\<close>, raised while the table of features is
  built or raised by the \<^verbatim>\<open>predict\<close> method of the model, does not leave the callback: the
  callback writes the traceback of the exception to the console, between two printed
  lines, and returns the failure message, which names the class of the exception and
  nothing else of it, with the colour \<^verbatim>\<open>danger\<close>.
\<close>

theorem exceptions_are_caught:
  assumes "n_clicks = Some k" and "1 \<le> k"
    and "is_Exception e"
    and "feature_table other_formats d h t hu w we ho wk = Inl e
         \<or> (\<exists>X. feature_table other_formats d h t hu w we ho wk = Inr X \<and> predict X = Inl e)"
  shows "\<exists>calls.
           calculate_prediction other_formats (Some predict) n_clicks (Some d) (Some h) (Some t)
             (Some hu) (Some w) (Some we) (Some ho) (Some wk) =
           \<lparr>response =
              Return (''Prediction Failed ('' @ exc_type_name e
                        @ ''). Please check the console traceback for details.'') ''danger'',
            console =
              [Print (CHR 0x0A # ''--- PREDICTION CALLBACK ERROR TRACEBACK ---''),
               PrintExc e,
               Print (''-------------------------------------------'' @ [CHR 0x0A])],
            predict_calls = calls\<rparr>"
  using assms
  by (auto simp: calculate_prediction_def except_Exception_def prediction_failed_def)

theorem exceptions_are_caught_witness:
  "calculate_prediction reject_other_formats (Some (constant_model (Finite 100))) (Some 1)
     (Some ''next Tuesday'') (Some (PyInt 10)) (Some (PyFloat (Finite (31 / 2))))
     (Some (PyInt 60)) (Some (PyInt 20)) (Some (PyInt 3)) (Some (PyInt 0)) (Some (PyInt 0)) =
   \<lparr>response =
      Return ''Prediction Failed (DateParseError). Please check the console traceback for details.''
        ''danger'',
    console =
      [Print (CHR 0x0A # ''--- PREDICTION CALLBACK ERROR TRACEBACK ---''),
       PrintExc (PyExn ''DateParseError'' ''next Tuesday 10:00:00''),
       Print (''-------------------------------------------'' @ [CHR 0x0A])],
    predict_calls = []\<rparr>
   \<and> response (calculate_prediction reject_other_formats
        (Some (raising_model (PyExn ''NotFittedError'' ''no estimator''))) (Some 1)
        (Some ''2024-07-15'') (Some (PyInt 10)) (Some (PyFloat (Finite (31 / 2))))
        (Some (PyInt 60)) (Some (PyInt 20)) (Some (PyInt 3)) (Some (PyInt 0))
        (Some (PyInt 0))) =
     Return ''Prediction Failed (NotFittedError). Please check the console traceback for details.''
       ''danger''"
proof -
  have clicked: "(1::int) \<le> 1"
    by simp
  have parse_class: "is_Exception (PyExn ''DateParseError'' ''next Tuesday 10:00:00'')"
    and model_class: "is_Exception (PyExn ''NotFittedError'' ''no estimator'')"
    by simp_all
  have parse: "feature_table reject_other_formats ''next Tuesday'' (PyInt 10)
      (PyFloat (Finite (31 / 2))) (PyInt 60) (PyInt 20) (PyInt 3) (PyInt 0) (PyInt 0) =
      Inl (PyExn ''DateParseError'' ''next Tuesday 10:00:00'')"
    by code_simp
  have no_call: "predict_calls (calculate_prediction reject_other_formats
      (Some (constant_model (Finite 100))) (Some 1)
     (Some ''next Tuesday'') (Some (PyInt 10)) (Some (PyFloat (Finite (31 / 2))))
     (Some (PyInt 60)) (Some (PyInt 20)) (Some (PyInt 3)) (Some (PyInt 0)) (Some (PyInt 0))) = []"
    by (simp add: predict_calls_loaded parse)
  have raised: "\<exists>X. feature_table reject_other_formats ''2024-07-15'' (PyInt 10)
      (PyFloat (Finite (31 / 2))) (PyInt 60) (PyInt 20) (PyInt 3) (PyInt 0) (PyInt 0) = Inr X
      \<and> raising_model (PyExn ''NotFittedError'' ''no estimator'') X =
          Inl (PyExn ''NotFittedError'' ''no estimator'')"
    by (simp add: sample_table raising_model_def)
  from exceptions_are_caught [OF refl clicked parse_class disjI1 [OF parse],
      of "constant_model (Finite 100)"] no_call
  have first: "calculate_prediction reject_other_formats (Some (constant_model (Finite 100)))
     (Some 1) (Some ''next Tuesday'') (Some (PyInt 10)) (Some (PyFloat (Finite (31 / 2))))
     (Some (PyInt 60)) (Some (PyInt 20)) (Some (PyInt 3)) (Some (PyInt 0)) (Some (PyInt 0)) =
   \<lparr>response =
      Return ''Prediction Failed (DateParseError). Please check the console traceback for details.''
        ''danger'',
    console =
      [Print (CHR 0x0A # ''--- PREDICTION CALLBACK ERROR TRACEBACK ---''),
       PrintExc (PyExn ''DateParseError'' ''next Tuesday 10:00:00''),
       Print (''-------------------------------------------'' @ [CHR 0x0A])],
    predict_calls = []\<rparr>"
    by auto
  from exceptions_are_caught [OF refl clicked model_class disjI2 [OF raised]]
  have "response (calculate_prediction reject_other_formats
        (Some (raising_model (PyExn ''NotFittedError'' ''no estimator''))) (Some 1)
        (Some ''2024-07-15'') (Some (PyInt 10)) (Some (PyFloat (Finite (31 / 2))))
        (Some (PyInt 60)) (Some (PyInt 20)) (Some (PyInt 3)) (Some (PyInt 0))
        (Some (PyInt 0))) =
     Return ''Prediction Failed (NotFittedError). Please check the console traceback for details.''
       ''danger''"
    by auto
  with first show ?thesis
    by blast
qed

section \<open>The routing callback\<close>



section \<open>What the features depend on\<close>

text \<open>
  Claim C7, as stated: the table is a function of five values of the form together with
  the date and the hour. There are six such values, and each of them changes the table:
  the temperature, the humidity, the wind speed, the weather code, the holiday flag and
  the weekend flag.
\<close>

theorem six_form_values_matter:
  "feature_table reject_other_formats ''2024-07-15'' (PyInt 10) (PyInt 15) (PyInt 60)
     (PyInt 20) (PyInt 3) (PyInt 0) (PyInt 0) \<noteq>
   feature_table reject_other_formats ''2024-07-15'' (PyInt 10) (PyInt 16) (PyInt 60)
     (PyInt 20) (PyInt 3) (PyInt 0) (PyInt 0)
   \<and> feature_table reject_other_formats ''2024-07-15'' (PyInt 10) (PyInt 15) (PyInt 60)
     (PyInt 20) (PyInt 3) (PyInt 0) (PyInt 0) \<noteq>
   feature_table reject_other_formats ''2024-07-15'' (PyInt 10) (PyInt 15) (PyInt 65)
     (PyInt 20) (PyInt 3) (PyInt 0) (PyInt 0)
   \<and> feature_table reject_other_formats ''2024-07-15'' (PyInt 10) (PyInt 15) (PyInt 60)
     (PyInt 20) (PyInt 3) (PyInt 0) (PyInt 0) \<noteq>
   feature_table reject_other_formats ''2024-07-15'' (PyInt 10) (PyInt 15) (PyInt 60)
     (PyInt 25) (PyInt 3) (PyInt 0) (PyInt 0)
   \<and> feature_table reject_other_formats ''2024-07-15'' (PyInt 10) (PyInt 15) (PyInt 60)
     (PyInt 20) (PyInt 3) (PyInt 0) (PyInt 0) \<noteq>
   feature_table reject_other_formats ''2024-07-15'' (PyInt 10) (PyInt 15) (PyInt 60)
     (PyInt 20) (PyInt 7) (PyInt 0) (PyInt 0)
   \<and> feature_table reject_other_formats ''2024-07-15'' (PyInt 10) (PyInt 15) (PyInt 60)
     (PyInt 20) (PyInt 3) (PyInt 0) (PyInt 0) \<noteq>
   feature_table reject_other_formats ''2024-07-15'' (PyInt 10) (PyInt 15) (PyInt 60)
     (PyInt 20) (PyInt 3) (PyInt 1) (PyInt 0)
   \<and> feature_table reject_other_formats ''2024-07-15'' (PyInt 10) (PyInt 15) (PyInt 60)
     (PyInt 20) (PyInt 3) (PyInt 0) (PyInt 0) \<noteq>
   feature_table reject_other_formats ''2024-07-15'' (PyInt 10) (PyInt 15) (PyInt 60)
     (PyInt 20) (PyInt 3) (PyInt 0) (PyInt 1)"
  by code_simp

text \<open>
  Claim C7, amended. Every table handed to the model is derived from six values of the
  form together with the date and the hour: t1 and t2 are the temperature, hum the
  humidity, wind_speed the wind speed, weather_code the weather code as a float,
  is_holiday and is_weekend the two flags, and season, hour, day_of_week and month are
  read from the timestamp parsed from the date and the hour. Neither the number of clicks
  nor the model has a part in it.
\<close>

theorem table_fields_from_inputs:
  "\<forall>X \<in> set (predict_calls (calculate_prediction other_formats model_pipeline n_clicks
        date_str hour temp_feels humidity wind_speed weather is_holiday is_weekend)).
      \<exists>hh ts weather_code hour_f day_of_week month_f.
        format_02d (the hour) = Inr hh
        \<and> to_datetime other_formats (the date_str @ '' '' @ hh @ '':00:00'') = Inr ts
        \<and> float_builtin (the weather) = Inr weather_code
        \<and> int_to_float (ts_hour ts) = Inr hour_f
        \<and> int_to_float (dayofweek ts) = Inr day_of_week
        \<and> int_to_float (ts_month ts) = Inr month_f
        \<and> X = \<lparr>df_columns =
                  [(''t1'', the temp_feels), (''t2'', the temp_feels),
                   (''hum'', the humidity), (''wind_speed'', the wind_speed),
                   (''weather_code'', PyFloat weather_code),
                   (''is_holiday'', the is_holiday), (''is_weekend'', the is_weekend),
                   (''season'', PyFloat (Finite (season_calc (ts_month ts)))),
                   (''hour'', PyFloat hour_f), (''day_of_week'', PyFloat day_of_week),
                   (''month'', PyFloat month_f)],
                df_index = ts\<rparr>"
proof
  fix X
  assume "X \<in> set (predict_calls (calculate_prediction other_formats model_pipeline n_clicks
        date_str hour temp_feels humidity wind_speed weather is_holiday is_weekend))"
  from predict_calls_cases [OF this] obtain d h t hu w we ho wk
    where inputs: "date_str = Some d" "hour = Some h" "temp_feels = Some t"
        "humidity = Some hu" "wind_speed = Some w" "weather = Some we" "is_holiday = Some ho"
        "is_weekend = Some wk"
      and table: "feature_table other_formats d h t hu w we ho wk = Inr X"
    by blast
  from feature_table_Inr [OF table] inputs
  show "\<exists>hh ts weather_code hour_f day_of_week month_f.
        format_02d (the hour) = Inr hh
        \<and> to_datetime other_formats (the date_str @ '' '' @ hh @ '':00:00'') = Inr ts
        \<and> float_builtin (the weather) = Inr weather_code
        \<and> int_to_float (ts_hour ts) = Inr hour_f
        \<and> int_to_float (dayofweek ts) = Inr day_of_week
        \<and> int_to_float (ts_month ts) = Inr month_f
        \<and> X = \<lparr>df_columns =
                  [(''t1'', the temp_feels), (''t2'', the temp_feels),
                   (''hum'', the humidity), (''wind_speed'', the wind_speed),
                   (''weather_code'', PyFloat weather_code),
                   (''is_holiday'', the is_holiday), (''is_weekend'', the is_weekend),
                   (''season'', PyFloat (Finite (season_calc (ts_month ts)))),
                   (''hour'', PyFloat hour_f), (''day_of_week'', PyFloat day_of_week),
                   (''month'', PyFloat month_f)],
                df_index = ts\<rparr>"
    by simp
qed

theorem table_fields_from_inputs_witness:
  "predict_calls (calculate_prediction reject_other_formats
     (Some (constant_model (Finite 100))) (Some 1) (Some ''2024-07-15'') (Some (PyInt 10))
     (Some (PyFloat (Finite (31 / 2)))) (Some (PyInt 60)) (Some (PyInt 20))
     (Some (PyInt 3)) (Some (PyInt 0)) (Some (PyInt 0))) =
   [\<lparr>df_columns =
       [(''t1'', PyFloat (Finite (31 / 2))), (''t2'', PyFloat (Finite (31 / 2))),
        (''hum'', PyInt 60), (''wind_speed'', PyInt 20),
        (''weather_code'', PyFloat (Finite 3)), (''is_holiday'', PyInt 0),
        (''is_weekend'', PyInt 0), (''season'', PyFloat (Finite 1)),
        (''hour'', PyFloat (Finite 10)), (''day_of_week'', PyFloat (Finite 0)),
        (''month'', PyFloat (Finite 7))],
      df_index = \<lparr>ts_year = 2024, ts_month = 7, ts_day = 15, ts_hour = 10,
                   ts_minute = 0, ts_second = 0\<rparr>\<rparr>]"
proof -
  let ?call = "calculate_prediction reject_other_formats
     (Some (constant_model (Finite 100))) (Some 1) (Some ''2024-07-15'') (Some (PyInt 10))
     (Some (PyFloat (Finite (31 / 2)))) (Some (PyInt 60)) (Some (PyInt 20))
     (Some (PyInt 3)) (Some (PyInt 0)) (Some (PyInt 0))"
  obtain X where calls: "predict_calls ?call = [X]"
    by (simp add: predict_calls_loaded sample_table)
  have hh: "format_02d (PyInt 10) = Inr ''10''"
    by code_simp
  have ts: "to_datetime reject_other_formats ''2024-07-15 10:00:00'' =
      Inr \<lparr>ts_year = 2024, ts_month = 7, ts_day = 15, ts_hour = 10,
           ts_minute = 0, ts_second = 0\<rparr>"
    by code_simp
  have floats: "int_to_float 3 = Inr (Finite 3)" "int_to_float 10 = Inr (Finite 10)"
      "int_to_float 7 = Inr (Finite 7)"
      "int_to_float (dayofweek \<lparr>ts_year = 2024, ts_month = 7, ts_day = 15, ts_hour = 10,
           ts_minute = 0, ts_second = 0\<rparr>) = Inr (Finite 0)"
      "season_calc 7 = 1"
    by code_simp+
  from table_fields_from_inputs [of reject_other_formats
        "Some (constant_model (Finite 100))" "Some 1" "Some ''2024-07-15''" "Some (PyInt 10)"
        "Some (PyFloat (Finite (31 / 2)))" "Some (PyInt 60)" "Some (PyInt 20)"
        "Some (PyInt 3)" "Some (PyInt 0)" "Some (PyInt 0)"] calls
  show ?thesis
    by (auto simp: hh ts floats simp del: format_02d.simps)
qed

section \<open>Determinism\<close>



section \<open>The displayed count\<close>



end
